theory Spec2Isabelle
  imports Complex_Main "HOL-Library.AList"
begin

section \<open>Python values handled by the client\<close>

text \<open>
  The client of \<^verbatim>\<open>nass-usda/api.py\<close> works on what \<^verbatim>\<open>resp.json()\<close> returns: \<^verbatim>\<open>None\<close>,
  booleans, unbounded integers, floats, strings, lists and dictionaries with string keys.
  A finite float is represented by its exact rational value. A \<^verbatim>\<open>str\<close> is a list of
  code points; the model covers the code points below 256, one \<^typ>\<open>char\<close> each.
  A dictionary is an association list in insertion order, looked up with
  \<^const>\<open>map_of\<close>; the dictionaries of the program have distinct keys.
\<close>

datatype pyfloat = Finite rat | NaN | Infinity

datatype json =
    JNull
  | JBool bool
  | JInt int
  | JFloat pyfloat
  | JString string
  | JList "json list"
  | JObject "(string \<times> json) list"

type_synonym dict = "(string \<times> json) list"

text \<open>
  A \<^verbatim>\<open>requests.Response\<close>, as far as the client reads it: the status code and the result
  of \<^verbatim>\<open>resp.json()\<close>, \<open>None\<close> when that call raises \<^verbatim>\<open>ValueError\<close>.
\<close>

record response =
  status_code :: int
  resp_json :: "json option"

text \<open>
  Modelled from the spec: the module \<^verbatim>\<open>exceptions\<close> that \<^verbatim>\<open>api.py\<close> imports is not
  part of the sources. Each class that \<^verbatim>\<open>api.py\<close> raises is a constructor carrying the
  arguments it is raised with; the names are those used in \<^verbatim>\<open>api.py\<close>. The last five
  constructors are the built-in exceptions of the Python operations used.
\<close>

datatype error =
    NetworkException
  | InvalidJson response
  | NassException response
  | UnexpectedResponseData json response
  | ExceptionList "json list" response
  | Unauthorized string response
  | InvalidQuery string response
  | BadMediaType string response
  | ExceedsRowLimit "int option" string response
  | ApiException string response
  | PyKeyError
  | PyTypeError
  | PyAttributeError
  | PyValueError
  | PyOverflowError

section \<open>Built-in operations\<close>

text \<open>\<^verbatim>\<open>data[k]\<close> for a string \<open>k\<close>: only a dictionary can be indexed by a string.\<close>

definition getitem :: "json \<Rightarrow> string \<Rightarrow> error + json" where
  "getitem data k =
     (case data of
        JObject d \<Rightarrow> (case map_of d k of None \<Rightarrow> Inl PyKeyError | Some v \<Rightarrow> Inr v)
      | _ \<Rightarrow> Inl PyTypeError)"

text \<open>\<^verbatim>\<open>s.startswith(p)\<close>\<close>

fun startswith :: "string \<Rightarrow> string \<Rightarrow> bool" where
  "startswith s [] = True"
| "startswith [] (p # ps) = False"
| "startswith (c # cs) (p # ps) = (c = p \<and> startswith cs ps)"

text \<open>
  \<^verbatim>\<open>s.split(sep)\<close> for a separator of one character: the pieces between the occurrences
  of the separator, one more piece than there are occurrences. (The result is never
  empty, so the last branch of the \<open>case\<close> is never taken.)
\<close>

fun str_split :: "string \<Rightarrow> char \<Rightarrow> string list" where
  "str_split [] sep = [[]]"
| "str_split (c # cs) sep =
     (if c = sep then [] # str_split cs sep
      else (case str_split cs sep of
              w # ws \<Rightarrow> (c # w) # ws
            | [] \<Rightarrow> [[c]]))"

text \<open>
  \<^verbatim>\<open>int(s)\<close> for a string, as CPython reads it: white space, an optional sign, decimal
  digits with single underscores between them, white space. Among the code points below
  256 the white space is tab, line feed, vertical tab, form feed, carriage return, space,
  U+0085 and U+00A0. A string of more than \<open>int_max_str_digits\<close> digits is refused
  (\<^verbatim>\<open>sys.int_info.default_max_str_digits\<close>; the check applies above 640 digits).
  \<open>None\<close> stands for \<^verbatim>\<open>ValueError\<close>.
\<close>

definition isspace :: "char \<Rightarrow> bool" where
  "isspace c = ((of_char c :: nat) \<in> {9, 10, 11, 12, 13, 32, 133, 160})"

definition isdigit :: "char \<Rightarrow> bool" where
  "isdigit c = (48 \<le> (of_char c :: nat) \<and> (of_char c :: nat) \<le> 57)"

definition digit_value :: "char \<Rightarrow> int" where
  "digit_value c = int (of_char c) - 48"

definition int_max_str_digits :: nat where
  "int_max_str_digits = 4300"

text \<open>
  The digits of the literal: \<open>prev\<close> says that the previous character was a digit (an
  underscore is accepted only then, and the literal must end in a digit), \<open>acc\<close> is the
  value read so far and \<open>n\<close> the number of digits.
\<close>

fun int_digits :: "string \<Rightarrow> bool \<Rightarrow> int \<Rightarrow> nat \<Rightarrow> (int \<times> nat) option" where
  "int_digits [] prev acc n = (if prev then Some (acc, n) else None)"
| "int_digits (c # cs) prev acc n =
     (if isdigit c then int_digits cs True (10 * acc + digit_value c) (Suc n)
      else if c = CHR ''_'' \<and> prev then int_digits cs False acc n
      else None)"

definition is_literal_char :: "char \<Rightarrow> bool" where
  "is_literal_char c = (isdigit c \<or> c = CHR ''_'')"

definition py_int_str :: "string \<Rightarrow> int option" where
  "py_int_str s =
     (let t = dropWhile isspace s;
          negative = (case t of [] \<Rightarrow> False | c # _ \<Rightarrow> c = CHR ''-'');
          u = (case t of [] \<Rightarrow> [] | c # r \<Rightarrow> if c = CHR ''+'' \<or> c = CHR ''-'' then r else t)
      in if list_all isspace (dropWhile is_literal_char u) then
           (case int_digits (takeWhile is_literal_char u) False 0 0 of
              None \<Rightarrow> None
            | Some (v, n) \<Rightarrow>
                if 640 < n \<and> 0 < int_max_str_digits \<and> int_max_str_digits < n then None
                else Some (if negative then - v else v))
         else None)"

text \<open>
  \<^verbatim>\<open>int(v)\<close> for a decoded value: an integer is itself, a boolean is 0 or 1, a finite
  float is truncated towards zero, a string is parsed; \<^verbatim>\<open>None\<close>, lists and dictionaries
  raise \<^verbatim>\<open>TypeError\<close>.
\<close>

definition py_int :: "json \<Rightarrow> error + int" where
  "py_int v =
     (case v of
        JInt n \<Rightarrow> Inr n
      | JBool b \<Rightarrow> Inr (if b then 1 else 0)
      | JFloat f \<Rightarrow>
          (case f of
             Finite q \<Rightarrow> Inr (if 0 \<le> q then \<lfloor>q\<rfloor> else \<lceil>q\<rceil>)
           | NaN \<Rightarrow> Inl PyValueError
           | Infinity \<Rightarrow> Inl PyOverflowError)
      | JString s \<Rightarrow> (case py_int_str s of None \<Rightarrow> Inl PyValueError | Some n \<Rightarrow> Inr n)
      | _ \<Rightarrow> Inl PyTypeError)"

section \<open>Interpreting a response\<close>

text \<open>
  The dictionary \<^verbatim>\<open>error_classes\<close> of \<^verbatim>\<open>_raise_for_error_message\<close>: the exception class
  of each message that is matched exactly.
\<close>

definition error_classes :: "(string \<times> (string \<Rightarrow> response \<Rightarrow> error)) list" where
  "error_classes =
     [(''unauthorized'', Unauthorized),
      (''bad request - invalid query'', InvalidQuery),
      (''bad request - unsupported media type'', BadMediaType)]"

text \<open>
  The \<^verbatim>\<open>try\<close> block of the row limit: \<^verbatim>\<open>int(message.split('=')[1])\<close>, with
  \<^verbatim>\<open>IndexError\<close> (no second piece) and \<^verbatim>\<open>ValueError\<close> (the piece is no integer) both
  giving \<^verbatim>\<open>None\<close>.
\<close>

definition row_limit :: "string \<Rightarrow> int option" where
  "row_limit message =
     (case str_split message CHR ''='' of
        _ # piece # _ \<Rightarrow> py_int_str piece
      | _ \<Rightarrow> None)"

text \<open>
  \<^verbatim>\<open>_raise_for_error_message\<close>: \<open>Inr ()\<close> when it returns without raising. A single entry
  that is a list or a dictionary cannot be hashed for the look-up in
  \<^verbatim>\<open>error_classes\<close> (\<^verbatim>\<open>TypeError\<close>); any other entry that is not a string is looked up
  without success and then has no \<^verbatim>\<open>startswith\<close> (\<^verbatim>\<open>AttributeError\<close>).
\<close>

definition raise_for_error_message :: "json \<Rightarrow> response \<Rightarrow> error + unit" where
  "raise_for_error_message errors response =
     (case errors of
        JList es \<Rightarrow>
          (if length es > 1 then Inl (ExceptionList es response)
           else if length es = 1 then
             (case es ! 0 of
                JString message \<Rightarrow>
                  (case map_of error_classes message of
                     Some exc_class \<Rightarrow> Inl (exc_class message response)
                   | None \<Rightarrow>
                       if startswith message ''exceeds limit''
                       then Inl (ExceedsRowLimit (row_limit message) message response)
                       else Inl (ApiException message response))
              | JList _ \<Rightarrow> Inl PyTypeError
              | JObject _ \<Rightarrow> Inl PyTypeError
              | _ \<Rightarrow> Inl PyAttributeError)
           else Inr ())
      | _ \<Rightarrow> Inr ())"

text \<open>
  \<^verbatim>\<open>_handle_response_data\<close>: the look-up of \<^verbatim>\<open>'error'\<close> (its \<^verbatim>\<open>KeyError\<close> and
  \<^verbatim>\<open>TypeError\<close> are passed over), the translation of the errors, the status check and the
  look-up of the field.
\<close>

definition handle_response_data :: "json \<Rightarrow> response \<Rightarrow> string \<Rightarrow> error + json" where
  "handle_response_data data response field_name =
     (case (case getitem data ''error'' of
              Inl e \<Rightarrow> if e = PyKeyError \<or> e = PyTypeError then Inr () else Inl e
            | Inr errors \<Rightarrow> raise_for_error_message errors response) of
        Inl e \<Rightarrow> Inl e
      | Inr _ \<Rightarrow>
          if status_code response \<noteq> 200 then Inl (NassException response)
          else (case getitem data field_name of
                  Inl e \<Rightarrow>
                    if e = PyKeyError \<or> e = PyTypeError
                    then Inl (UnexpectedResponseData data response)
                    else Inl e
                | Inr result \<Rightarrow> Inr result))"

section \<open>Sending a request\<close>

text \<open>
  The client object: its key and its HTTP session. The session is the function from the
  URL and the parameters of a GET to the response, \<open>None\<close> when
  \<^verbatim>\<open>requests.RequestException\<close> is raised.
\<close>

record client =
  key :: string
  http :: "string \<Rightarrow> dict \<Rightarrow> response option"

text \<open>
  Dictionaries are objects: the store maps the address of each to its content, and
  \<open>sent\<close> lists the GET requests made so far, each with its URL and parameters.
\<close>

type_synonym addr = nat

record state =
  heap :: "addr \<Rightarrow> dict"
  sent :: "(string \<times> dict) list"

definition BASE_URL :: string where
  "BASE_URL = ''https://quickstats.nass.usda.gov/api''"

text \<open>
  \<^verbatim>\<open>_api_request\<close>: \<^verbatim>\<open>params.update({'key': self.key})\<close> writes into the dictionary that
  \<open>params\<close> refers to; the GET is made with that dictionary.
\<close>

definition api_request ::
    "client \<Rightarrow> state \<Rightarrow> string \<Rightarrow> addr \<Rightarrow> string \<Rightarrow> state \<times> (error + json)" where
  "api_request self s url params field_name =
     (let api_url = BASE_URL @ url;
          d = AList.update ''key'' (JString (key self)) (heap s params);
          s' = s\<lparr>heap := (heap s)(params := d), sent := sent s @ [(api_url, d)]\<rparr>
      in case http self api_url d of
           None \<Rightarrow> (s', Inl NetworkException)
         | Some resp \<Rightarrow>
             (case resp_json resp of
                None \<Rightarrow> (s', Inl (InvalidJson resp))
              | Some data \<Rightarrow> (s', handle_response_data data resp field_name)))"

text \<open>
  Modelled from the spec: the class \<^verbatim>\<open>Query\<close> of the module \<^verbatim>\<open>query\<close> is not part of the
  sources. \<^verbatim>\<open>api.py\<close> reads its attribute \<^verbatim>\<open>params\<close>, the accumulated parameter mapping
  of the query, which is a reference to a dictionary.
\<close>

record query =
  params :: addr

definition count_query :: "client \<Rightarrow> state \<Rightarrow> query \<Rightarrow> state \<times> (error + int)" where
  "count_query self s query =
     (case api_request self s ''/get_counts/'' (params query) ''count'' of
        (s', Inl e) \<Rightarrow> (s', Inl e)
      | (s', Inr count) \<Rightarrow> (s', py_int count))"

definition call_query :: "client \<Rightarrow> state \<Rightarrow> query \<Rightarrow> state \<times> (error + json)" where
  "call_query self s query = api_request self s ''/api_GET/'' (params query) ''data''"

section \<open>Notions used in the properties\<close>

text \<open>The body is a mapping that contains the key.\<close>

definition has_key :: "json \<Rightarrow> string \<Rightarrow> bool" where
  "has_key data k = (case data of JObject d \<Rightarrow> map_of d k \<noteq> None | _ \<Rightarrow> False)"

text \<open>\<^verbatim>\<open>isinstance(v, list)\<close>\<close>

definition isinstance_list :: "json \<Rightarrow> bool" where
  "isinstance_list v = (case v of JList _ \<Rightarrow> True | _ \<Rightarrow> False)"

text \<open>
  The row limit in the words of the specification: the substring of the message after
  the first \<^verbatim>\<open>=\<close> character, parsed as an integer; absent when the parse fails or there
  is no such substring.
\<close>

definition spec_row_limit :: "string \<Rightarrow> int option" where
  "spec_row_limit message =
     (case dropWhile (\<lambda>c. c \<noteq> CHR ''='') message of
        [] \<Rightarrow> None
      | _ # rest \<Rightarrow> py_int_str rest)"

text \<open>
  What a send leaves behind: the state \<open>s'\<close> after a GET to the endpoint \<open>url\<close> with the
  dictionary at \<open>p\<close>. The request is recorded with the dictionary as it is afterwards,
  that dictionary holds the key of the client under \<^verbatim>\<open>'key'\<close> and is unchanged at every
  other name, and no other dictionary is touched.
\<close>

definition credential_written :: "client \<Rightarrow> state \<Rightarrow> addr \<Rightarrow> string \<Rightarrow> state \<Rightarrow> bool" where
  "credential_written self s p url s' =
     (sent s' = sent s @ [(BASE_URL @ url, heap s' p)] \<and>
      map_of (heap s' p) ''key'' = Some (JString (key self)) \<and>
      (\<forall>k. k \<noteq> ''key'' \<longrightarrow> map_of (heap s' p) k = map_of (heap s p) k) \<and>
      (\<forall>a. a \<noteq> p \<longrightarrow> heap s' a = heap s a))"

text \<open>
  Examples: a service that answers every request with status 200 and the given body, a
  client with the key \<^verbatim>\<open>K\<close>, a store whose dictionaries all hold one filter, and a
  query on the dictionary at address 0.
\<close>

definition reply :: "int \<Rightarrow> json \<Rightarrow> string \<Rightarrow> dict \<Rightarrow> response option" where
  "reply code body url ps = Some \<lparr>status_code = code, resp_json = Some body\<rparr>"

definition example_client :: "json \<Rightarrow> client" where
  "example_client body = \<lparr>key = ''K'', http = reply 200 body\<rparr>"

definition example_state :: state where
  "example_state = \<lparr>heap = (\<lambda>a. [(''year'', JInt 2016)]), sent = []\<rparr>"

definition example_query :: query where
  "example_query = \<lparr>params = 0\<rparr>"




section \<open>Properties\<close>

lemma getitem_raises: "getitem data k = Inl e \<Longrightarrow> e = PyKeyError \<or> e = PyTypeError"
  by (auto simp: getitem_def split: json.splits option.splits)

text \<open>
  C5: an error list of more than one entry raises \<^verbatim>\<open>ExceptionList\<close> with the whole list,
  in its order, both from the translation step and from the interpretation of a body
  whose \<^verbatim>\<open>'error'\<close> key holds the list, whatever the status code.
\<close>

theorem multiple_errors_carry_list:
  "1 < length es \<longrightarrow>
     raise_for_error_message (JList es) response = Inl (ExceptionList es response) \<and>
     (map_of d ''error'' = Some (JList es) \<longrightarrow>
        handle_response_data (JObject d) response field_name = Inl (ExceptionList es response))"
  by (simp add: raise_for_error_message_def handle_response_data_def getitem_def)

theorem multiple_errors_carry_list_witness:
  "handle_response_data (JObject [(''error'', JList [JString ''a'', JString ''b''])])
     \<lparr>status_code = 200, resp_json = None\<rparr> ''data''
   = Inl (ExceptionList [JString ''a'', JString ''b''] \<lparr>status_code = 200, resp_json = None\<rparr>)"
  using multiple_errors_carry_list [of "[JString ''a'', JString ''b'']"
      "\<lparr>status_code = 200, resp_json = None\<rparr>" "[(''error'', JList [JString ''a'', JString ''b''])]" "''data''"]
  by simp


subsection \<open>Auxiliary facts\<close>

lemmas int_eval = py_int_str_def isspace_def isdigit_def digit_value_def is_literal_char_def
  int_max_str_digits_def

text \<open>The first piece of a split ends at the first separator; the rest is split again.\<close>

lemma str_split_unfold:
  "str_split s sep =
     takeWhile (\<lambda>c. c \<noteq> sep) s #
       (case dropWhile (\<lambda>c. c \<noteq> sep) s of [] \<Rightarrow> [] | _ # r \<Rightarrow> str_split r sep)"
  by (induction s) (auto split: list.splits)

lemma row_limit_segment:
  "row_limit message =
     (case dropWhile (\<lambda>c. c \<noteq> CHR ''='') message of
        [] \<Rightarrow> None
      | _ # rest \<Rightarrow> py_int_str (takeWhile (\<lambda>c. c \<noteq> CHR ''='') rest))"
proof (cases "dropWhile (\<lambda>c. c \<noteq> CHR ''='') message")
  case Nil
  have "str_split message CHR ''='' = [takeWhile (\<lambda>c. c \<noteq> CHR ''='') message]"
    by (subst str_split_unfold) (simp only: Nil list.case)
  then show ?thesis
    by (simp only: row_limit_def Nil list.case)
next
  case (Cons c rest)
  have "str_split message CHR ''='' =
          takeWhile (\<lambda>c. c \<noteq> CHR ''='') message # str_split rest CHR ''=''"
    by (subst str_split_unfold) (simp only: Cons list.case)
  also have "str_split rest CHR ''='' =
          takeWhile (\<lambda>c. c \<noteq> CHR ''='') rest #
            (case dropWhile (\<lambda>c. c \<noteq> CHR ''='') rest of [] \<Rightarrow> [] | _ # r \<Rightarrow> str_split r CHR ''='')"
    by (rule str_split_unfold)
  finally show ?thesis
    by (simp only: row_limit_def Cons list.case)
qed

lemma exceeds_limit_not_in_table:
  "startswith message ''exceeds limit'' \<Longrightarrow> map_of error_classes message = None"
  by (cases message) (auto simp: error_classes_def)

text \<open>The state after a request does not depend on the answer of the service.\<close>

lemma api_request_state:
  "fst (api_request self s url p f) =
     s\<lparr>heap := (heap s)(p := AList.update ''key'' (JString (key self)) (heap s p)),
       sent := sent s @ [(BASE_URL @ url, AList.update ''key'' (JString (key self)) (heap s p))]\<rparr>"
  by (simp add: api_request_def Let_def split: option.splits)

lemma count_query_state:
  "fst (count_query self s q) = fst (api_request self s ''/get_counts/'' (params q) ''count'')"
  by (simp add: count_query_def split: prod.splits sum.splits)

lemma api_request_credential:
  "credential_written self s p url (fst (api_request self s url p f))"
  by (simp add: credential_written_def api_request_state update_conv')

lemma count_query_result:
  "snd (count_query self s q) =
     (case snd (api_request self s ''/get_counts/'' (params q) ''count'') of
        Inl e \<Rightarrow> Inl e
      | Inr count \<Rightarrow> py_int count)"
  by (simp add: count_query_def split: prod.splits sum.splits)

lemma example_request:
  "snd (api_request (example_client body) example_state url (params example_query) f) =
     handle_response_data body \<lparr>status_code = 200, resp_json = Some body\<rparr> f"
  by (simp add: api_request_def example_client_def reply_def Let_def)


lemma digit_char [simp]:
  "d < 10 \<Longrightarrow> isdigit (char_of (48 + d)) \<and> digit_value (char_of (48 + d)) = int d"
  by (simp add: isdigit_def digit_value_def)













subsection \<open>The order of the checks\<close>

text \<open>
  C1: for a body that is a mapping with an \<^verbatim>\<open>'error'\<close> key, whatever the translation of
  the errors raises is what the interpretation of the response raises, whatever the status
  code; in particular the body \<^verbatim>\<open>{"error": ["unauthorized"]}\<close> raises \<^verbatim>\<open>Unauthorized\<close> for
  every response, and never \<^verbatim>\<open>NassException\<close>.
\<close>

theorem error_translation_precedes_status_check:
  "(map_of d ''error'' = Some errors \<longrightarrow> raise_for_error_message errors response = Inl e \<longrightarrow>
      handle_response_data (JObject d) response field_name = Inl e) \<and>
   handle_response_data (JObject [(''error'', JList [JString ''unauthorized''])]) response field_name
     = Inl (Unauthorized ''unauthorized'' response)"
  by (simp add: handle_response_data_def getitem_def raise_for_error_message_def error_classes_def)

theorem error_translation_precedes_status_check_witness:
  "handle_response_data (JObject [(''error'', JList [JString ''unauthorized''])])
     \<lparr>status_code = 401, resp_json = Some (JObject [(''error'', JList [JString ''unauthorized''])])\<rparr>
     ''count''
   = Inl (Unauthorized ''unauthorized''
       \<lparr>status_code = 401, resp_json = Some (JObject [(''error'', JList [JString ''unauthorized''])])\<rparr>)"
  using error_translation_precedes_status_check
    [of "[(''error'', JList [JString ''unauthorized''])]"
      "JList [JString ''unauthorized'']"
      "\<lparr>status_code = 401, resp_json = Some (JObject [(''error'', JList [JString ''unauthorized''])])\<rparr>"
      "Unauthorized ''unauthorized''
         \<lparr>status_code = 401, resp_json = Some (JObject [(''error'', JList [JString ''unauthorized''])])\<rparr>"
      "''count''"]
  by (simp add: raise_for_error_message_def error_classes_def)

text \<open>
  C6: for a body without an \<^verbatim>\<open>'error'\<close> key (a mapping without the key, or no mapping
  at all), a status other than 200 raises \<^verbatim>\<open>NassException\<close> with the response, and
  status 200 with the requested field absent raises \<^verbatim>\<open>UnexpectedResponseData\<close> with the
  decoded body and the response.
\<close>

theorem no_error_key_status_then_field:
  "\<not> has_key data ''error'' \<longrightarrow>
     (status_code response \<noteq> 200 \<longrightarrow>
        handle_response_data data response field_name = Inl (NassException response)) \<and>
     (status_code response = 200 \<longrightarrow> \<not> has_key data field_name \<longrightarrow>
        handle_response_data data response field_name = Inl (UnexpectedResponseData data response))"
  by (cases data) (auto simp: has_key_def handle_response_data_def getitem_def)

theorem no_error_key_status_then_field_witness:
  "handle_response_data (JObject []) \<lparr>status_code = 500, resp_json = Some (JObject [])\<rparr> ''count''
     = Inl (NassException \<lparr>status_code = 500, resp_json = Some (JObject [])\<rparr>) \<and>
   handle_response_data (JObject []) \<lparr>status_code = 200, resp_json = Some (JObject [])\<rparr> ''count''
     = Inl (UnexpectedResponseData (JObject []) \<lparr>status_code = 200, resp_json = Some (JObject [])\<rparr>)"
  using no_error_key_status_then_field
      [of "JObject []" "\<lparr>status_code = 500, resp_json = Some (JObject [])\<rparr>" "''count''"]
    no_error_key_status_then_field
      [of "JObject []" "\<lparr>status_code = 200, resp_json = Some (JObject [])\<rparr>" "''count''"]
  by (simp add: has_key_def)

text \<open>
  C8: when the \<^verbatim>\<open>'error'\<close> key holds the empty list, the translation of the errors raises
  nothing and the status check follows: \<^verbatim>\<open>NassException\<close> for a status other than 200,
  and at status 200 the value of the requested field when the body has it.
\<close>

theorem empty_error_list_falls_through:
  "map_of d ''error'' = Some (JList []) \<longrightarrow>
     raise_for_error_message (JList []) response = Inr () \<and>
     (status_code response \<noteq> 200 \<longrightarrow>
        handle_response_data (JObject d) response field_name = Inl (NassException response)) \<and>
     (status_code response = 200 \<longrightarrow> map_of d field_name = Some v \<longrightarrow>
        handle_response_data (JObject d) response field_name = Inr v)"
  by (simp add: raise_for_error_message_def handle_response_data_def getitem_def)

theorem empty_error_list_falls_through_witness:
  "handle_response_data (JObject [(''error'', JList []), (''data'', JList [JInt 1])])
     \<lparr>status_code = 200, resp_json = None\<rparr> ''data'' = Inr (JList [JInt 1])"
  using empty_error_list_falls_through
    [of "[(''error'', JList []), (''data'', JList [JInt 1])]"
      "\<lparr>status_code = 200, resp_json = None\<rparr>" "''data''" "JList [JInt 1]"]
  by simp

text \<open>
  C9: when the \<^verbatim>\<open>'error'\<close> key holds a value that is not a list, the translation of the
  errors raises nothing and the status check and the look-up of the field follow: at
  status 200 the value of the requested field is returned when the body has it.
\<close>

theorem non_list_error_value_ignored:
  "\<not> isinstance_list errors \<longrightarrow>
     raise_for_error_message errors response = Inr () \<and>
     (map_of d ''error'' = Some errors \<longrightarrow>
        (status_code response \<noteq> 200 \<longrightarrow>
           handle_response_data (JObject d) response field_name = Inl (NassException response)) \<and>
        (status_code response = 200 \<longrightarrow> map_of d field_name = Some v \<longrightarrow>
           handle_response_data (JObject d) response field_name = Inr v))"
  by (cases errors)
    (simp_all add: isinstance_list_def raise_for_error_message_def handle_response_data_def
      getitem_def)

theorem non_list_error_value_ignored_witness:
  "handle_response_data (JObject [(''error'', JString ''unauthorized''), (''count'', JInt 7)])
     \<lparr>status_code = 200, resp_json = None\<rparr> ''count'' = Inr (JInt 7)"
  using non_list_error_value_ignored
    [of "JString ''unauthorized''" "\<lparr>status_code = 200, resp_json = None\<rparr>"
      "[(''error'', JString ''unauthorized''), (''count'', JInt 7)]" "''count''" "JInt 7"]
  by (simp add: isinstance_list_def)


subsection \<open>The translation of a single message\<close>

text \<open>
  C4: an error list of one message raises the class that \<^verbatim>\<open>error_classes\<close> gives for the
  three messages matched exactly, with the message and the response; any other message
  that does not start with \<^verbatim>\<open>exceeds limit\<close> raises \<^verbatim>\<open>ApiException\<close> with that message.
\<close>

theorem single_error_message_table:
  "raise_for_error_message (JList [JString ''unauthorized'']) response
     = Inl (Unauthorized ''unauthorized'' response) \<and>
   raise_for_error_message (JList [JString ''bad request - invalid query'']) response
     = Inl (InvalidQuery ''bad request - invalid query'' response) \<and>
   raise_for_error_message (JList [JString ''bad request - unsupported media type'']) response
     = Inl (BadMediaType ''bad request - unsupported media type'' response) \<and>
   (message \<noteq> ''unauthorized'' \<longrightarrow> message \<noteq> ''bad request - invalid query'' \<longrightarrow>
    message \<noteq> ''bad request - unsupported media type'' \<longrightarrow>
    \<not> startswith message ''exceeds limit'' \<longrightarrow>
      raise_for_error_message (JList [JString message]) response = Inl (ApiException message response))"
  by (simp add: raise_for_error_message_def error_classes_def)

theorem single_error_message_table_witness:
  "raise_for_error_message (JList [JString ''Unauthorized'']) \<lparr>status_code = 200, resp_json = None\<rparr>
     = Inl (ApiException ''Unauthorized'' \<lparr>status_code = 200, resp_json = None\<rparr>)"
  using single_error_message_table [of "\<lparr>status_code = 200, resp_json = None\<rparr>" "''Unauthorized''"]
  by simp

text \<open>
  C2, as the code has it: an error list of one message that starts with
  \<^verbatim>\<open>exceeds limit\<close> raises \<^verbatim>\<open>ExceedsRowLimit\<close> with the message, the response and the
  limit; the limit is the integer read from the part of the message between its first
  \<^verbatim>\<open>=\<close> and its next \<^verbatim>\<open>=\<close> (the whole rest of the message when there is no second
  \<^verbatim>\<open>=\<close>), and is absent when the message has no \<^verbatim>\<open>=\<close> or that part is no integer.
\<close>

theorem row_limit_between_equals_signs:
  "startswith message ''exceeds limit'' \<longrightarrow>
     raise_for_error_message (JList [JString message]) response =
       Inl (ExceedsRowLimit
              (case dropWhile (\<lambda>c. c \<noteq> CHR ''='') message of
                 [] \<Rightarrow> None
               | _ # rest \<Rightarrow> py_int_str (takeWhile (\<lambda>c. c \<noteq> CHR ''='') rest))
              message response)"
  by (simp add: raise_for_error_message_def exceeds_limit_not_in_table row_limit_segment)

theorem row_limit_between_equals_signs_witness:
  "raise_for_error_message (JList [JString ''exceeds limit=50000''])
       \<lparr>status_code = 200, resp_json = None\<rparr>
     = Inl (ExceedsRowLimit (Some 50000) ''exceeds limit=50000'' \<lparr>status_code = 200, resp_json = None\<rparr>) \<and>
   raise_for_error_message (JList [JString ''exceeds limit=abc''])
       \<lparr>status_code = 200, resp_json = None\<rparr>
     = Inl (ExceedsRowLimit None ''exceeds limit=abc'' \<lparr>status_code = 200, resp_json = None\<rparr>)"
  using row_limit_between_equals_signs
      [of "''exceeds limit=50000''" "\<lparr>status_code = 200, resp_json = None\<rparr>"]
    row_limit_between_equals_signs
      [of "''exceeds limit=abc''" "\<lparr>status_code = 200, resp_json = None\<rparr>"]
  by (simp add: int_eval)

text \<open>
  The message \<^verbatim>\<open>exceeds limit=5=6\<close> separates the two readings: the substring after the
  first \<^verbatim>\<open>=\<close> is \<^verbatim>\<open>5=6\<close>, which is no integer, so the limit of the specification is
  absent, while the code reads the piece \<^verbatim>\<open>5\<close> and records the limit 5.
\<close>

theorem row_limit_after_first_equals_counterexample:
  "raise_for_error_message (JList [JString ''exceeds limit=5=6''])
       \<lparr>status_code = 200, resp_json = None\<rparr>
     = Inl (ExceedsRowLimit (Some 5) ''exceeds limit=5=6'' \<lparr>status_code = 200, resp_json = None\<rparr>) \<and>
   spec_row_limit ''exceeds limit=5=6'' = None"
  by (simp add: raise_for_error_message_def error_classes_def row_limit_def spec_row_limit_def
      int_eval)

subsection \<open>The credential and the parameters\<close>

text \<open>
  C3, as the code has it: \<^verbatim>\<open>count_query\<close> and \<^verbatim>\<open>call_query\<close> send the GET with the
  credential under \<^verbatim>\<open>'key'\<close> by writing it into the parameter dictionary of the query
  itself: after the call that dictionary holds the credential, its other entries are
  unchanged, it is what was sent, and no other dictionary has changed.
\<close>

theorem send_writes_credential_into_params:
  "credential_written self s (params q) ''/get_counts/'' (fst (count_query self s q)) \<and>
   credential_written self s (params q) ''/api_GET/'' (fst (call_query self s q))"
  by (simp add: count_query_state call_query_def api_request_credential)

theorem send_writes_credential_into_params_witness:
  "map_of (heap (fst (count_query (example_client (JObject [(''count'', JString ''141811'')]))
                example_state example_query)) 0) ''key'' = Some (JString ''K'') \<and>
   map_of (heap (fst (count_query (example_client (JObject [(''count'', JString ''141811'')]))
                example_state example_query)) 0) ''year'' = Some (JInt 2016) \<and>
   heap (fst (count_query (example_client (JObject [(''count'', JString ''141811'')]))
                example_state example_query)) 1 = [(''year'', JInt 2016)]"
  using send_writes_credential_into_params
    [of "example_client (JObject [(''count'', JString ''141811'')])" example_state example_query]
  by (simp add: credential_written_def example_client_def example_state_def example_query_def)

text \<open>
  A query whose parameters are \<^verbatim>\<open>{'year': 2016}\<close>, sent by a client with the key \<^verbatim>\<open>K\<close>:
  after \<^verbatim>\<open>count_query\<close> the dictionary of the query is no longer what it was, and after
  \<^verbatim>\<open>call_query\<close> it holds the credential under \<^verbatim>\<open>'key'\<close>.
\<close>

theorem params_mutated_counterexample:
  "heap (fst (count_query (example_client (JObject [(''count'', JString ''141811'')]))
                example_state example_query)) (params example_query)
     \<noteq> heap example_state (params example_query) \<and>
   map_of (heap (fst (call_query (example_client (JObject [(''data'', JList [])]))
                example_state example_query)) (params example_query)) ''key''
     = Some (JString ''K'')"
  by (simp add: count_query_state call_query_def api_request_state example_client_def
      example_state_def example_query_def)

subsection \<open>The row count\<close>




text \<open>
  C10, as the code has it: when the request for the count succeeds with a \<^verbatim>\<open>'count'\<close>
  field that \<^verbatim>\<open>int\<close> does not convert, \<^verbatim>\<open>count_query\<close> raises the built-in exception
  of \<^verbatim>\<open>int\<close>, which is none of the exceptions of the client: \<^verbatim>\<open>ValueError\<close> for a
  string that does not read as an integer and for a NaN, \<^verbatim>\<open>TypeError\<close> for \<^verbatim>\<open>None\<close>, a
  list and a mapping, \<^verbatim>\<open>OverflowError\<close> for an infinite float.
\<close>

theorem count_query_conversion_error:
  "snd (api_request self s ''/get_counts/'' (params q) ''count'') = Inr count \<longrightarrow>
     (count = JString str \<longrightarrow> py_int_str str = None \<longrightarrow>
        snd (count_query self s q) = Inl PyValueError) \<and>
     (count = JFloat NaN \<longrightarrow> snd (count_query self s q) = Inl PyValueError) \<and>
     (count = JFloat Infinity \<longrightarrow> snd (count_query self s q) = Inl PyOverflowError) \<and>
     (count = JNull \<or> count = JList es \<or> count = JObject d \<longrightarrow>
        snd (count_query self s q) = Inl PyTypeError) \<and>
     (snd (count_query self s q) = Inl e \<longrightarrow>
        e = PyValueError \<or> e = PyTypeError \<or> e = PyOverflowError)"
  by (cases count)
    (auto simp: count_query_result py_int_def split: option.splits pyfloat.splits)

theorem count_query_conversion_error_witness:
  "snd (count_query (example_client (JObject [(''count'', JString ''abc'')]))
          example_state example_query) = Inl PyValueError"
  using count_query_conversion_error
    [of "example_client (JObject [(''count'', JString ''abc'')])" example_state
      example_query "JString ''abc''" "''abc''"]
  by (simp add: example_request handle_response_data_def getitem_def int_eval)

text \<open>
  The body \<^verbatim>\<open>{"count": null}\<close> at status 200: the value is not converted, and the
  exception is \<^verbatim>\<open>TypeError\<close>, not \<^verbatim>\<open>ValueError\<close>.
\<close>

theorem count_query_null_counterexample:
  "snd (count_query (example_client (JObject [(''count'', JNull)]))
          example_state example_query) = Inl PyTypeError \<and>
   snd (count_query (example_client (JObject [(''count'', JNull)]))
          example_state example_query) \<noteq> Inl PyValueError"
  by (simp add: count_query_result example_request handle_response_data_def getitem_def
      py_int_def)

end
